theory Spec2Isabelle
  imports Main "HOL-Library.AList"
begin

section \<open>JavaScript values\<close>

text \<open>
  The sources are JavaScript modules: \<open>favorites\<close> helpers working on a shared store
  (\<open>addFavoriteShow\<close>, \<open>removeFavoriteShow\<close>, \<open>isShowFavorited\<close>) and the History page
  (\<open>fetchWithRetry\<close>, \<open>fetchHistory\<close>, \<open>handleDelete\<close>). Objects are association lists
  from property names to values; a missing property reads as \<open>undefined\<close>. Numbers are
  modelled as integers: the ids, season and episode numbers that the code branches on
  and prints are integers, and JavaScript prints an integer below \<open>10^21\<close> in plain
  decimal.
\<close>

datatype jsval =
    JUndefined
  | JNull
  | JBool bool
  | JNum int
  | JStr string
  | JArr "jsval list"
  | JObj "(string \<times> jsval) list"

type_synonym obj = "(string \<times> jsval) list"

text \<open>An \<open>Error\<close> object, identified by its message.\<close>

datatype js_error = Error string | TypeError string

fun message :: "js_error \<Rightarrow> string" where
  "message (Error m) = m"
| "message (TypeError m) = m"

text \<open>Property read \<open>o.k\<close> on an object.\<close>

definition get :: "obj \<Rightarrow> string \<Rightarrow> jsval" where
  "get ob k = (case map_of ob k of None \<Rightarrow> JUndefined | Some v \<Rightarrow> v)"

text \<open>Property write in an object literal: \<open>{...o, k: v}\<close>.\<close>

definition put :: "string \<Rightarrow> jsval \<Rightarrow> obj \<Rightarrow> obj" where
  "put k v ob = AList.update k v ob"

text \<open>Truthiness, as used by \<open>if\<close>, \<open>!\<close>, \<open>&&\<close> and \<open>||\<close>.\<close>

fun truthy :: "jsval \<Rightarrow> bool" where
  "truthy JUndefined = False"
| "truthy JNull = False"
| "truthy (JBool b) = b"
| "truthy (JNum n) = (n \<noteq> 0)"
| "truthy (JStr s) = (s \<noteq> [])"
| "truthy (JArr xs) = True"
| "truthy (JObj ob) = True"

text \<open>\<open>a || b\<close>\<close>

definition js_or :: "jsval \<Rightarrow> jsval \<Rightarrow> jsval" where
  "js_or a b = (if truthy a then a else b)"

subsection \<open>Conversion to string in template literals\<close>

text \<open>The decimal digit \<open>d\<close> (below 10) as a character.\<close>

definition digit_char :: "nat \<Rightarrow> char" where
  "digit_char d = ''0123456789'' ! d"

function string_of_nat :: "nat \<Rightarrow> string" where
  "string_of_nat n =
     (if n < 10 then [digit_char n]
      else string_of_nat (n div 10) @ [digit_char (n mod 10)])"
  by pat_completeness auto
termination
  by (relation "measure id") auto

declare string_of_nat.simps [simp del]

text \<open>The decimal representation of an integer, as \<open>String(n)\<close> prints it.\<close>

definition string_of_int :: "int \<Rightarrow> string" where
  "string_of_int i =
     (if i < 0 then CHR ''-'' # string_of_nat (nat (- i)) else string_of_nat (nat i))"

fun join_comma :: "string list \<Rightarrow> string" where
  "join_comma [] = []"
| "join_comma [s] = s"
| "join_comma (s # t # ss) = s @ '','' @ join_comma (t # ss)"

text \<open>
  \<open>`${v}`\<close>: the string a template literal inserts for a value. In an array, \<open>null\<close> and
  \<open>undefined\<close> elements print as the empty string.
\<close>

fun toStr :: "jsval \<Rightarrow> string" where
  "toStr JUndefined = ''undefined''"
| "toStr JNull = ''null''"
| "toStr (JBool b) = (if b then ''true'' else ''false'')"
| "toStr (JNum n) = string_of_int n"
| "toStr (JStr s) = s"
| "toStr (JArr xs) =
     join_comma (map (\<lambda>x. if x = JUndefined \<or> x = JNull then [] else toStr x) xs)"
| "toStr (JObj ob) = ''[object Object]''"

text \<open>
  Strict comparison \<open>a !== b\<close>. The code applies it to ids and to \<open>watch_id\<close> strings,
  which are primitives, so it is inequality of values.
\<close>

definition strict_neq :: "jsval \<Rightarrow> jsval \<Rightarrow> bool" where
  "strict_neq a b = (a \<noteq> b)"

section \<open>History page: fetchWithRetry\<close>

text \<open>
  A response of \<open>fetch\<close>: the fields the code reads, and what \<open>response.json()\<close> gives
  (a parse error or the parsed value).
\<close>

record response =
  ok :: bool
  status :: int
  statusText :: string
  json :: "js_error + jsval"

text \<open>
  One attempt races \<open>fetch(url)\<close> against a 10000 ms timer with \<open>Promise.race\<close>. The
  outcome of the race is given by the environment: the fetch fulfilled first, the fetch
  rejected first, or the timer fired first.
\<close>

datatype race_outcome =
    FetchFulfilled response
  | FetchRejected js_error
  | TimeoutFirst

text \<open>The environment: the outcome of attempt \<open>i\<close> (counted from 0) on a URL.\<close>

type_synonym net = "string \<Rightarrow> nat \<Rightarrow> race_outcome"

text \<open>
  What a call did, in order: a network attempt on a URL, \<open>console.warn\<close>, a
  \<open>setTimeout\<close> wait in milliseconds, \<open>console.error\<close>.
\<close>

datatype event =
    Attempt string
  | Warn string string
  | Sleep int
  | LogError string js_error

text \<open>How an awaited call settles; \<open>Resolved None\<close> is a promise resolved with \<open>undefined\<close>.\<close>

datatype 'a settled =
    Resolved 'a
  | Rejected js_error

text \<open>
  The body of the \<open>try\<close> block: the value of \<open>await Promise.race(...)\<close>, then the
  \<open>response.ok\<close> check.
\<close>

fun try_attempt :: "race_outcome \<Rightarrow> js_error + response" where
  "try_attempt (FetchFulfilled r) =
     (if \<not> ok r
      then Inl (Error (''HTTP '' @ toStr (JNum (status r)) @ '': '' @ statusText r))
      else Inr r)"
| "try_attempt (FetchRejected e) = Inl e"
| "try_attempt TimeoutFirst = Inl (Error ''Request timeout'')"

text \<open>
  The \<open>for\<close> loop of \<open>fetchWithRetry\<close>, from index \<open>i\<close>, with the events so far.
\<close>

function fetchWithRetry_loop ::
  "net \<Rightarrow> string \<Rightarrow> int \<Rightarrow> int \<Rightarrow> nat \<Rightarrow> event list
     \<Rightarrow> response option settled \<times> event list" where
  "fetchWithRetry_loop fetch url maxRetries delay i evs =
     (if int i < maxRetries then
        (case try_attempt (fetch url i) of
           Inr r \<Rightarrow> (Resolved (Some r), evs @ [Attempt url])
         | Inl err \<Rightarrow>
             (let evs' = evs @ [Attempt url,
                    Warn (''Fetch attempt '' @ toStr (JNum (int i + 1)) @ '' failed for ''
                            @ url @ '':'') (message err)]
              in if int i = maxRetries - 1 then (Rejected err, evs')
                 else fetchWithRetry_loop fetch url maxRetries delay (i + 1)
                        (evs' @ [Sleep (delay * (int i + 1))])))
      else (Resolved None, evs))"
  by pat_completeness auto
termination
  by (relation "measure (\<lambda>(fetch, url, maxRetries, delay, i, evs). nat (maxRetries - int i))")
     auto

declare fetchWithRetry_loop.simps [simp del]

definition fetchWithRetry ::
  "net \<Rightarrow> string \<Rightarrow> int \<Rightarrow> int \<Rightarrow> response option settled \<times> event list" where
  "fetchWithRetry fetch url maxRetries delay =
     fetchWithRetry_loop fetch url maxRetries delay 0 []"

text \<open>The number of network attempts a call made.\<close>

fun is_attempt :: "event \<Rightarrow> bool" where
  "is_attempt (Attempt u) = True"
| "is_attempt (Warn a b) = False"
| "is_attempt (Sleep d) = False"
| "is_attempt (LogError a e) = False"

definition attempts :: "event list \<Rightarrow> nat" where
  "attempts evs = length (filter is_attempt evs)"

section \<open>History page: the enrichment of history records\<close>
















section \<open>Effects on the collaborators\<close>

text \<open>
  Calls issued to code outside these modules. Their outcome is a parameter of the
  function that awaits them.
\<close>

datatype call =
    Insert string obj
  | DeleteMatch string obj
  | RemoveContinueWatchingItem jsval
  | DeleteWatchItem obj
  | FetchContinueWatching

datatype toast = ToastSuccess string | ToastError string

text \<open>
  What is observable besides the state itself: the console and network trace, the calls
  issued, the toasts shown.
\<close>

record effects =
  trace :: "event list"
  calls :: "call list"
  toasts :: "toast list"

section \<open>History page: fetchHistory and handleDelete\<close>

text \<open>The component state: \<open>history\<close>, \<open>loading\<close>, \<open>error\<close>.\<close>

record page = effects +
  history :: "obj list"
  loading :: bool
  error :: "string option"



text \<open>
  \<open>handleDelete\<close> up to its first \<open>await\<close>: the optimistic removal from \<open>history\<close> by
  \<open>watch_id\<close>, the removal from the Continue Watching state, the call of
  \<open>deleteWatchItem\<close>.
\<close>

definition handleDelete_begin :: "obj \<Rightarrow> page \<Rightarrow> page" where
  "handleDelete_begin itemToDelete p =
     p\<lparr>history := filter (\<lambda>item. strict_neq (get item ''watch_id'')
                                    (get itemToDelete ''watch_id'')) (history p),
       calls := calls p @ [RemoveContinueWatchingItem (get itemToDelete ''media_id''),
                           DeleteWatchItem itemToDelete]\<rparr>"

text \<open>
  The rest of \<open>handleDelete\<close>, once \<open>deleteWatchItem\<close> has settled: the refetch of
  Continue Watching when it succeeded, and the \<open>catch\<close> block, which logs.
\<close>

definition handleDelete_settle :: "unit settled \<Rightarrow> unit settled \<Rightarrow> page \<Rightarrow> page" where
  "handleDelete_settle deleted refetched p =
     (let failed = (\<lambda>e q.
            q\<lparr>trace := trace q
                 @ [LogError ''Failed to delete item or refetch continue watching:'' e]\<rparr>)
      in case deleted of
           Rejected e \<Rightarrow> failed e p
         | Resolved u \<Rightarrow>
             (let p2 = p\<lparr>calls := calls p @ [FetchContinueWatching]\<rparr>
              in case refetched of
                   Rejected e \<Rightarrow> failed e p2
                 | Resolved u' \<Rightarrow> p2))"

text \<open>
  The whole handler; \<open>others\<close> is what other handlers do to the page while
  \<open>deleteWatchItem\<close> is in flight (the identity when nothing else runs).
\<close>

definition handleDelete ::
  "unit settled \<Rightarrow> unit settled \<Rightarrow> (page \<Rightarrow> page) \<Rightarrow> obj \<Rightarrow> page \<Rightarrow> page" where
  "handleDelete deleted refetched others itemToDelete p =
     handleDelete_settle deleted refetched (others (handleDelete_begin itemToDelete p))"

section \<open>Favorites: addFavoriteShow, removeFavoriteShow, isShowFavorited\<close>

text \<open>The store fields the functions use: \<open>favorites\<close> and the set \<open>favoritedMedia\<close>.\<close>

record store = effects +
  favorites :: "obj list"
  favoritedMedia :: "string set"

text \<open>\<open>`${showId}-tv`\<close>\<close>

definition favoriteKey :: "jsval \<Rightarrow> string" where
  "favoriteKey showId = toStr showId @ ''-tv''"

text \<open>\<open>`'${show.name || show.title}'`\<close>, in single quotes.\<close>

definition quoted_name :: "obj \<Rightarrow> string" where
  "quoted_name show =
     [CHR 0x27] @ toStr (js_or (get show ''name'') (get show ''title'')) @ [CHR 0x27]"

text \<open>
  \<open>addFavoriteShow\<close> from the result \<open>user\<close> of \<open>supabase.auth.getUser()\<close> up to the
  \<open>await\<close> of the insert. The flag says whether the insert was issued.
\<close>

definition addFavoriteShow_begin :: "obj option \<Rightarrow> obj \<Rightarrow> store \<Rightarrow> bool \<times> store" where
  "addFavoriteShow_begin user show s =
     (case user of
        None \<Rightarrow>
          (False, s\<lparr>toasts := toasts s
                       @ [ToastError ''You need to be logged in to save favorites.'']\<rparr>)
      | Some u \<Rightarrow>
          (let showId = get show ''id'' in
           if favoriteKey showId \<in> favoritedMedia s then (False, s)
           else (True,
                 s\<lparr>favorites := put ''type'' (JStr ''tv'') show # favorites s,
                   favoritedMedia := insert (favoriteKey showId) (favoritedMedia s),
                   toasts := toasts s
                     @ [ToastSuccess (quoted_name show @ '' has been added to your Favorites.'')],
                   calls := calls s
                     @ [Insert ''favorites''
                          [(''user_id'', get u ''id''),
                           (''media_id'', showId),
                           (''media_type'', JStr ''tv'')]]\<rparr>)))"

text \<open>
  The rest of \<open>addFavoriteShow\<close>, once the insert has settled with \<open>error\<close>
  (\<open>None\<close> is \<open>null\<close>): the revert on the current state.
\<close>

definition addFavoriteShow_settle :: "obj \<Rightarrow> js_error option \<Rightarrow> store \<Rightarrow> store" where
  "addFavoriteShow_settle show err s =
     (case err of
        None \<Rightarrow> s
      | Some e \<Rightarrow>
          (let showId = get show ''id'' in
           s\<lparr>trace := trace s @ [LogError ''Error adding favorite show:'' e],
             favoritedMedia := favoritedMedia s - {favoriteKey showId},
             favorites := filter (\<lambda>f. strict_neq (get f ''id'') showId) (favorites s)\<rparr>))"

text \<open>
  The whole function; \<open>others\<close> is what other handlers do to the store while the insert
  is in flight (the identity when nothing else runs).
\<close>

definition addFavoriteShow ::
  "obj option \<Rightarrow> js_error option \<Rightarrow> (store \<Rightarrow> store) \<Rightarrow> obj \<Rightarrow> store \<Rightarrow> store" where
  "addFavoriteShow user err others show s =
     (case addFavoriteShow_begin user show s of
        (False, s') \<Rightarrow> s'
      | (True, s') \<Rightarrow> addFavoriteShow_settle show err (others s'))"

text \<open>
  \<open>removeFavoriteShow\<close> up to the \<open>await\<close> of the delete: the snapshot
  (\<open>originalFavorites\<close>, \<open>originalFavoritedMedia\<close>) when the delete was issued, and the
  optimistic state.
\<close>

definition removeFavoriteShow_begin ::
  "obj option \<Rightarrow> obj \<Rightarrow> store \<Rightarrow> (obj list \<times> string set) option \<times> store" where
  "removeFavoriteShow_begin user show s =
     (case user of
        None \<Rightarrow> (None, s)
      | Some u \<Rightarrow>
          (let showId = get show ''id'';
               originalFavorites = favorites s;
               originalFavoritedMedia = favoritedMedia s
           in (Some (originalFavorites, originalFavoritedMedia),
               s\<lparr>favorites := filter (\<lambda>fav. strict_neq (get fav ''id'') showId) (favorites s),
                 favoritedMedia :=
                   Set.filter (\<lambda>id. id \<noteq> favoriteKey showId) (favoritedMedia s),
                 toasts := toasts s
                   @ [ToastError (quoted_name show @ '' has been removed from your Favorites.'')],
                 calls := calls s
                   @ [DeleteMatch ''favorites''
                        [(''user_id'', get u ''id''),
                         (''media_id'', showId),
                         (''media_type'', JStr ''tv'')]]\<rparr>)))"

text \<open>The rest of \<open>removeFavoriteShow\<close>, once the delete has settled with \<open>error\<close>.\<close>

definition removeFavoriteShow_settle ::
  "obj \<Rightarrow> obj list \<times> string set \<Rightarrow> js_error option \<Rightarrow> store \<Rightarrow> store" where
  "removeFavoriteShow_settle show original err s =
     (case err of
        None \<Rightarrow> s
      | Some e \<Rightarrow>
          s\<lparr>trace := trace s @ [LogError ''Error removing favorite show:'' e],
            favorites := fst original,
            favoritedMedia := snd original,
            toasts := toasts s
              @ [ToastError (''Failed to remove '' @ quoted_name show @ '' from favorites.'')]\<rparr>)"

definition removeFavoriteShow ::
  "obj option \<Rightarrow> js_error option \<Rightarrow> (store \<Rightarrow> store) \<Rightarrow> obj \<Rightarrow> store \<Rightarrow> store" where
  "removeFavoriteShow user err others show s =
     (case removeFavoriteShow_begin user show s of
        (None, s') \<Rightarrow> s'
      | (Some original, s') \<Rightarrow> removeFavoriteShow_settle show original err (others s'))"

definition isShowFavorited :: "jsval \<Rightarrow> store \<Rightarrow> bool" where
  "isShowFavorited showId s = (favoriteKey showId \<in> favoritedMedia s)"

section \<open>Sample inputs\<close>

definition sample_user :: obj where
  "sample_user = [(''id'', JStr ''user-1'')]"

definition sample_show :: obj where
  "sample_show = [(''id'', JNum 42), (''name'', JStr ''Dark'')]"

definition sample_movie :: obj where
  "sample_movie = [(''id'', JNum 42), (''title'', JStr ''Heat''), (''type'', JStr ''movie'')]"

definition episode_one :: obj where
  "episode_one =
     [(''id'', JNum 42), (''type'', JStr ''tv''),
      (''season_number'', JNum 1), (''episode_number'', JNum 1)]"

definition episode_two :: obj where
  "episode_two =
     [(''id'', JNum 42), (''type'', JStr ''anime''),
      (''season_number'', JNum 2), (''episode_number'', JNum 5)]"

definition empty_store :: store where
  "empty_store = \<lparr>trace = [], calls = [], toasts = [], favorites = [], favoritedMedia = {}\<rparr>"

text \<open>A store in which \<open>sample_show\<close> is already a favorite.\<close>

definition store_with_show :: store where
  "store_with_show =
     \<lparr>trace = [], calls = [], toasts = [],
      favorites = [[(''id'', JNum 42), (''name'', JStr ''Dark''), (''type'', JStr ''tv'')]],
      favoritedMedia = {''42-tv''}\<rparr>"

text \<open>A store holding only a movie whose id is that of \<open>sample_show\<close>.\<close>

definition store_with_movie :: store where
  "store_with_movie =
     \<lparr>trace = [], calls = [], toasts = [],
      favorites = [sample_movie],
      favoritedMedia = {''42-movie''}\<rparr>"

text \<open>A store holding a movie and a show with the same id, and an unrelated show.\<close>

definition store_shared_id :: store where
  "store_shared_id =
     \<lparr>trace = [], calls = [], toasts = [],
      favorites = [[(''id'', JNum 42), (''name'', JStr ''Dark''), (''type'', JStr ''tv'')],
                   sample_movie,
                   [(''id'', JNum 7), (''name'', JStr ''Lost''), (''type'', JStr ''tv'')]],
      favoritedMedia = {''42-tv'', ''42-movie'', ''7-tv''}\<rparr>"

definition ok_response :: response where
  "ok_response =
     \<lparr>ok = True, status = 200, statusText = ''OK'',
      json = Inr (JObj [(''id'', JNum 1399), (''name'', JStr ''Game of Thrones'')])\<rparr>"

text \<open>An endpoint that times out twice and then answers.\<close>

definition third_time_lucky :: net where
  "third_time_lucky url i = (if i < 2 then TimeoutFirst else FetchFulfilled ok_response)"

definition always_timeout :: net where
  "always_timeout url i = TimeoutFirst"



text \<open>A History page showing two enriched items.\<close>

definition sample_page :: page where
  "sample_page =
     \<lparr>trace = [], calls = [], toasts = [],
      history = [[(''id'', JNum 1399), (''watch_id'', JStr ''user-1-1399-tv-0-0''),
                  (''media_id'', JNum 1399)],
                 [(''id'', JNum 550), (''watch_id'', JStr ''user-1-550-movie-0-0''),
                  (''media_id'', JNum 550)]],
      loading = False, error = None\<rparr>"

section \<open>Reading a decimal string back\<close>

text \<open>The inverse of \<open>string_of_nat\<close>, used to show that distinct numbers print differently.\<close>

definition nat_of_string :: "string \<Rightarrow> nat" where
  "nat_of_string s = foldl (\<lambda>a c. 10 * a + (of_char c - 48)) 0 s"

section \<open>Properties of fetchWithRetry\<close>

lemma attempts_append: "attempts (xs @ ys) = attempts xs + attempts ys"
  by (simp add: attempts_def)

lemma loop_not_entered:
  "\<not> int i < maxRetries \<Longrightarrow>
     fetchWithRetry_loop fetch url maxRetries delay i evs = (Resolved None, evs)"
  by (simp add: fetchWithRetry_loop.simps)

lemma loop_step_ok:
  "int i < maxRetries \<Longrightarrow> try_attempt (fetch url i) = Inr r \<Longrightarrow>
     fetchWithRetry_loop fetch url maxRetries delay i evs
       = (Resolved (Some r), evs @ [Attempt url])"
  by (simp add: fetchWithRetry_loop.simps)

lemma loop_step_last:
  "int i = maxRetries - 1 \<Longrightarrow> try_attempt (fetch url i) = Inl e \<Longrightarrow>
     \<exists>evs'. fetchWithRetry_loop fetch url maxRetries delay i evs = (Rejected e, evs')
           \<and> attempts evs' = attempts evs + 1"
  by (simp add: fetchWithRetry_loop.simps [of _ _ _ _ i] attempts_def)

lemma loop_step_retry:
  "int i < maxRetries \<Longrightarrow> int i \<noteq> maxRetries - 1 \<Longrightarrow> try_attempt (fetch url i) = Inl e \<Longrightarrow>
     \<exists>evs'. fetchWithRetry_loop fetch url maxRetries delay i evs
             = fetchWithRetry_loop fetch url maxRetries delay (Suc i) evs'
           \<and> attempts evs' = attempts evs + 1"
  apply (simp add: fetchWithRetry_loop.simps [of _ _ _ _ i])
  apply (rule exI, rule conjI, rule refl)
  apply (simp add: attempts_def)
  done

text \<open>The loop makes at most one attempt per remaining index.\<close>

lemma loop_attempts_le:
  "attempts (snd (fetchWithRetry_loop fetch url maxRetries delay i evs))
     \<le> attempts evs + nat (maxRetries - int i)"
proof (induction "nat (maxRetries - int i)" arbitrary: i evs)
  case 0
  then show ?case by (simp add: loop_not_entered)
next
  case (Suc d)
  then have inb: "int i < maxRetries" by simp
  show ?case
  proof (cases "try_attempt (fetch url i)")
    case (Inr r)
    with inb show ?thesis by (simp add: loop_step_ok attempts_append attempts_def)
  next
    case (Inl e)
    show ?thesis
    proof (cases "int i = maxRetries - 1")
      case True
      from loop_step_last [where fetch = fetch and url = url and delay = delay and evs = evs,
          OF True Inl] inb
      show ?thesis by auto
    next
      case False
      from loop_step_retry [where fetch = fetch and url = url and delay = delay and evs = evs,
          OF inb False Inl]
      obtain evs' where
        step: "fetchWithRetry_loop fetch url maxRetries delay i evs
                 = fetchWithRetry_loop fetch url maxRetries delay (Suc i) evs'"
        and cnt: "attempts evs' = attempts evs + 1"
        by blast
      have "d = nat (maxRetries - int (Suc i))" using Suc.hyps(2) by simp
      from Suc.hyps(1) [OF this, of evs'] cnt step Suc.hyps(2) show ?thesis by simp
    qed
  qed
qed

text \<open>Failures up to index \<open>k\<close> and a success there: the loop stops at \<open>k\<close>.\<close>

lemma loop_success:
  assumes "i \<le> k" "int k < maxRetries"
    and "\<forall>j. i \<le> j \<and> j < k \<longrightarrow> (\<exists>e. try_attempt (fetch url j) = Inl e)"
    and "try_attempt (fetch url k) = Inr r"
  shows "fst (fetchWithRetry_loop fetch url maxRetries delay i evs) = Resolved (Some r)
       \<and> attempts (snd (fetchWithRetry_loop fetch url maxRetries delay i evs))
           = attempts evs + (k - i + 1)"
  using assms
proof (induction "k - i" arbitrary: i evs)
  case 0
  then have "i = k" by simp
  with 0 show ?case
    by (simp add: loop_step_ok attempts_append attempts_def)
next
  case (Suc d)
  then have lt: "i < k" by simp
  with Suc.prems obtain e where e: "try_attempt (fetch url i) = Inl e" by blast
  from lt Suc.prems have notlast: "int i \<noteq> maxRetries - 1" and inb: "int i < maxRetries"
    by auto
  from loop_step_retry [where fetch = fetch and url = url and delay = delay and evs = evs,
      OF inb notlast e]
  obtain evs' where
    step: "fetchWithRetry_loop fetch url maxRetries delay i evs
             = fetchWithRetry_loop fetch url maxRetries delay (Suc i) evs'"
    and cnt: "attempts evs' = attempts evs + 1"
    by blast
  have d: "d = k - Suc i" using Suc.hyps(2) by simp
  have le: "Suc i \<le> k" using lt by simp
  have all: "\<forall>j. Suc i \<le> j \<and> j < k \<longrightarrow> (\<exists>e. try_attempt (fetch url j) = Inl e)"
    using Suc.prems(3) by simp
  from Suc.hyps(1) [OF d le Suc.prems(2) all Suc.prems(4), of evs'] step cnt lt
  show ?case by simp
qed

text \<open>Every remaining attempt fails: the error of the last one is thrown.\<close>

lemma loop_exhaust:
  assumes "int i < maxRetries"
    and "\<forall>j. i \<le> j \<and> int j < maxRetries \<longrightarrow> (\<exists>e. try_attempt (fetch url j) = Inl e)"
  shows "\<exists>e. try_attempt (fetch url (nat (maxRetries - 1))) = Inl e
            \<and> fst (fetchWithRetry_loop fetch url maxRetries delay i evs) = Rejected e
            \<and> attempts (snd (fetchWithRetry_loop fetch url maxRetries delay i evs))
                = attempts evs + nat (maxRetries - int i)"
  using assms
proof (induction "nat (maxRetries - int i)" arbitrary: i evs)
  case 0
  then show ?case by simp
next
  case (Suc d)
  from Suc.prems obtain e where e: "try_attempt (fetch url i) = Inl e" by blast
  show ?case
  proof (cases "int i = maxRetries - 1")
    case True
    then have "nat (maxRetries - 1) = i" by simp
    with loop_step_last [where fetch = fetch and url = url and delay = delay and evs = evs,
        OF True e] e True
    show ?thesis by auto
  next
    case False
    with Suc.prems have inb: "int (Suc i) < maxRetries" by simp
    from loop_step_retry [where fetch = fetch and url = url and delay = delay and evs = evs,
        OF Suc.prems(1) False e]
    obtain evs' where
      step: "fetchWithRetry_loop fetch url maxRetries delay i evs
               = fetchWithRetry_loop fetch url maxRetries delay (Suc i) evs'"
      and cnt: "attempts evs' = attempts evs + 1"
      by blast
    have d: "d = nat (maxRetries - int (Suc i))" using Suc.hyps(2) by simp
    have all: "\<forall>j. Suc i \<le> j \<and> int j < maxRetries \<longrightarrow> (\<exists>e. try_attempt (fetch url j) = Inl e)"
      using Suc.prems(2) by simp
    from Suc.hyps(1) [OF d inb all, of evs'] step cnt inb show ?thesis by auto
  qed
qed

text \<open>
  C4. \<open>fetchWithRetry\<close> makes at most \<open>maxRetries\<close> attempts. If attempt \<open>k\<close> (counted
  from 0) is the first to succeed, the call resolves with that response after exactly
  \<open>k + 1\<close> attempts. If all \<open>maxRetries\<close> attempts fail, the call rejects with the
  error of the last attempt, after exactly \<open>maxRetries\<close> attempts.
\<close>

theorem fetchWithRetry_bounded:
  "attempts (snd (fetchWithRetry fetch url maxRetries delay)) \<le> nat maxRetries
   \<and> (\<forall>k r. int k < maxRetries
          \<and> (\<forall>j<k. \<exists>e. try_attempt (fetch url j) = Inl e)
          \<and> try_attempt (fetch url k) = Inr r
        \<longrightarrow> fst (fetchWithRetry fetch url maxRetries delay) = Resolved (Some r)
            \<and> attempts (snd (fetchWithRetry fetch url maxRetries delay)) = k + 1)
   \<and> (0 < maxRetries
          \<and> (\<forall>j. int j < maxRetries \<longrightarrow> (\<exists>e. try_attempt (fetch url j) = Inl e))
        \<longrightarrow> (\<exists>e. try_attempt (fetch url (nat (maxRetries - 1))) = Inl e
               \<and> fst (fetchWithRetry fetch url maxRetries delay) = Rejected e)
            \<and> attempts (snd (fetchWithRetry fetch url maxRetries delay)) = nat maxRetries)"
proof (intro conjI allI impI)
  show "attempts (snd (fetchWithRetry fetch url maxRetries delay)) \<le> nat maxRetries"
    using loop_attempts_le [of fetch url maxRetries delay 0 "[]"]
    by (simp add: fetchWithRetry_def attempts_def)
next
  fix k r
  assume a: "int k < maxRetries
          \<and> (\<forall>j<k. \<exists>e. try_attempt (fetch url j) = Inl e)
          \<and> try_attempt (fetch url k) = Inr r"
  then have all: "\<forall>j. 0 \<le> j \<and> j < k \<longrightarrow> (\<exists>e. try_attempt (fetch url j) = Inl e)"
    by simp
  from a have k: "int k < maxRetries" and r: "try_attempt (fetch url k) = Inr r"
    by simp_all
  note s = loop_success [where fetch = fetch and url = url and delay = delay and evs = "[]",
      OF le0 k all r]
  from s show "fst (fetchWithRetry fetch url maxRetries delay) = Resolved (Some r)"
    by (simp add: fetchWithRetry_def)
  from s show "attempts (snd (fetchWithRetry fetch url maxRetries delay)) = k + 1"
    by (simp add: fetchWithRetry_def attempts_def)
next
  assume a: "0 < maxRetries
          \<and> (\<forall>j. int j < maxRetries \<longrightarrow> (\<exists>e. try_attempt (fetch url j) = Inl e))"
  then have pos: "int 0 < maxRetries"
    and all: "\<forall>j. 0 \<le> j \<and> int j < maxRetries \<longrightarrow> (\<exists>e. try_attempt (fetch url j) = Inl e)"
    by simp_all
  note s = loop_exhaust [where fetch = fetch and url = url and delay = delay and evs = "[]",
      OF pos all]
  from s show "\<exists>e. try_attempt (fetch url (nat (maxRetries - 1))) = Inl e
               \<and> fst (fetchWithRetry fetch url maxRetries delay) = Rejected e"
    by (auto simp: fetchWithRetry_def)
  from s show "attempts (snd (fetchWithRetry fetch url maxRetries delay)) = nat maxRetries"
    by (auto simp: fetchWithRetry_def attempts_def)
qed

text \<open>
  The scenario of the specification: two timeouts and then an answer give the answer
  after exactly 3 attempts; an endpoint that always times out gives the timeout error
  after exactly 3 attempts.
\<close>

theorem fetchWithRetry_bounded_witness:
  "fst (fetchWithRetry third_time_lucky ''/tmdb/tv/1399'' 3 1000) = Resolved (Some ok_response)
   \<and> attempts (snd (fetchWithRetry third_time_lucky ''/tmdb/tv/1399'' 3 1000)) = 3
   \<and> fst (fetchWithRetry always_timeout ''/tmdb/tv/1399'' 3 1000)
       = Rejected (Error ''Request timeout'')
   \<and> attempts (snd (fetchWithRetry always_timeout ''/tmdb/tv/1399'' 3 1000)) = 3"
proof -
  have h1: "int 2 < 3
      \<and> (\<forall>j<2. \<exists>e. try_attempt (third_time_lucky ''/tmdb/tv/1399'' j) = Inl e)
      \<and> try_attempt (third_time_lucky ''/tmdb/tv/1399'' 2) = Inr ok_response"
    by (simp add: third_time_lucky_def ok_response_def)
  have h2: "(0::int) < 3
      \<and> (\<forall>j. int j < 3 \<longrightarrow> (\<exists>e. try_attempt (always_timeout ''/tmdb/tv/1399'' j) = Inl e))"
    by (simp add: always_timeout_def)
  from fetchWithRetry_bounded [of third_time_lucky "''/tmdb/tv/1399''" 3 1000] h1
  have c1: "fst (fetchWithRetry third_time_lucky ''/tmdb/tv/1399'' 3 1000)
              = Resolved (Some ok_response)
      \<and> attempts (snd (fetchWithRetry third_time_lucky ''/tmdb/tv/1399'' 3 1000)) = 2 + 1"
    by blast
  from fetchWithRetry_bounded [of always_timeout "''/tmdb/tv/1399''" 3 1000] h2
  have c2: "(\<exists>e. try_attempt (always_timeout ''/tmdb/tv/1399'' (nat (3 - 1))) = Inl e
               \<and> fst (fetchWithRetry always_timeout ''/tmdb/tv/1399'' 3 1000) = Rejected e)
      \<and> attempts (snd (fetchWithRetry always_timeout ''/tmdb/tv/1399'' 3 1000)) = nat 3"
    by blast
  from c1 c2 show ?thesis by (auto simp: always_timeout_def)
qed

text \<open>
  C10. When \<open>maxRetries \<le> 0\<close> the loop body never runs: no attempt is made, nothing is
  logged or thrown, and the call resolves with \<open>undefined\<close>.
\<close>

theorem fetchWithRetry_no_retries:
  "maxRetries \<le> 0 \<Longrightarrow> fetchWithRetry fetch url maxRetries delay = (Resolved None, [])"
  by (simp add: fetchWithRetry_def loop_not_entered)

theorem fetchWithRetry_no_retries_witness:
  "(0::int) \<le> 0 \<and> (- 2::int) \<le> 0
   \<and> fetchWithRetry third_time_lucky ''/tmdb/tv/1399'' 0 1000 = (Resolved None, [])
   \<and> fetchWithRetry third_time_lucky ''/tmdb/tv/1399'' (- 2) 1000 = (Resolved None, [])
   \<and> attempts (snd (fetchWithRetry third_time_lucky ''/tmdb/tv/1399'' 0 1000)) = 0"
  using fetchWithRetry_no_retries [of 0 third_time_lucky "''/tmdb/tv/1399''" 1000]
    fetchWithRetry_no_retries [of "- 2" third_time_lucky "''/tmdb/tv/1399''" 1000]
  by (simp add: attempts_def)

section \<open>Decimal strings are injective\<close>

lemma of_char_digit_char: "d < 10 \<Longrightarrow> of_char (digit_char d) = 48 + d"
proof -
  assume "d < 10"
  then have "d \<in> {0, 1, 2, 3, 4, 5, 6, 7, 8, 9}" by auto
  then show ?thesis by (auto simp: digit_char_def)
qed

lemma nat_of_string_snoc:
  "nat_of_string (s @ [c]) = 10 * nat_of_string s + (of_char c - 48)"
  by (simp add: nat_of_string_def)

lemma nat_of_string_of_nat: "nat_of_string (string_of_nat n) = n"
proof (induction n rule: string_of_nat.induct)
  case (1 n)
  show ?case
  proof (cases "n < 10")
    case True
    then show ?thesis
      by (simp add: string_of_nat.simps [of n] nat_of_string_def of_char_digit_char)
  next
    case False
    with "1.IH" have "nat_of_string (string_of_nat (n div 10)) = n div 10" by simp
    with False show ?thesis
      by (simp add: string_of_nat.simps [of n] nat_of_string_snoc of_char_digit_char)
  qed
qed

lemma string_of_nat_inj: "string_of_nat m = string_of_nat n \<Longrightarrow> m = n"
  by (metis nat_of_string_of_nat)

lemma digit_char_not_minus: "d < 10 \<Longrightarrow> digit_char d \<noteq> CHR ''-''"
proof
  assume "d < 10" and "digit_char d = CHR ''-''"
  then have "(of_char (digit_char d) :: nat) = of_char CHR ''-''" by simp
  with \<open>d < 10\<close> show False by (simp add: of_char_digit_char)
qed

lemma string_of_nat_hd: "\<exists>d cs. d < 10 \<and> string_of_nat n = digit_char d # cs"
proof (induction n rule: string_of_nat.induct)
  case (1 n)
  show ?case
  proof (cases "n < 10")
    case True
    then show ?thesis by (auto simp: string_of_nat.simps [of n])
  next
    case False
    with "1.IH" obtain d cs where "d < 10" "string_of_nat (n div 10) = digit_char d # cs"
      by blast
    with False show ?thesis by (auto simp: string_of_nat.simps [of n])
  qed
qed

lemma string_of_nat_not_minus: "string_of_nat n \<noteq> CHR ''-'' # cs"
proof
  assume a: "string_of_nat n = CHR ''-'' # cs"
  from string_of_nat_hd [of n]
  obtain d ds where "d < 10" "string_of_nat n = digit_char d # ds"
    by blast
  with a have "d < 10" "digit_char d = CHR ''-''" by simp_all
  with digit_char_not_minus show False by blast
qed

lemma string_of_int_inj: "string_of_int i = string_of_int j \<Longrightarrow> i = j"
proof -
  assume eq: "string_of_int i = string_of_int j"
  show "i = j"
  proof (cases "i < 0")
    case i: True
    show ?thesis
    proof (cases "j < 0")
      case True
      with i eq have "string_of_nat (nat (- i)) = string_of_nat (nat (- j))"
        by (simp add: string_of_int_def)
      then have "nat (- i) = nat (- j)" by (rule string_of_nat_inj)
      with i True show ?thesis by simp
    next
      case False
      with i eq string_of_nat_not_minus [of "nat j" "string_of_nat (nat (- i))"]
      show ?thesis by (simp add: string_of_int_def)
    qed
  next
    case i: False
    show ?thesis
    proof (cases "j < 0")
      case True
      with i eq string_of_nat_not_minus [of "nat i" "string_of_nat (nat (- j))"]
      show ?thesis by (simp add: string_of_int_def)
    next
      case False
      with i eq have "string_of_nat (nat i) = string_of_nat (nat j)"
        by (simp add: string_of_int_def)
      then have "nat i = nat j" by (rule string_of_nat_inj)
      with i False show ?thesis by simp
    qed
  qed
qed

lemma put_eval [simp]:
  "put k v [] = [(k, v)]"
  "put k v ((k', v') # ob) = (if k' = k then (k, v) # ob else (k', v') # put k v ob)"
  by (simp_all add: put_def)

lemma get_put: "get (put k v ob) k' = (if k' = k then v else get ob k')"
  by (simp add: get_def put_def update_conv')

lemmas decimal_eval = string_of_int_def string_of_nat.simps digit_char_def

lemmas favorites_eval =
  addFavoriteShow_def addFavoriteShow_begin_def addFavoriteShow_settle_def
  removeFavoriteShow_def removeFavoriteShow_begin_def removeFavoriteShow_settle_def
  isShowFavorited_def favoriteKey_def quoted_name_def get_def js_or_def strict_neq_def Let_def

lemmas samples =
  sample_user_def sample_show_def sample_movie_def episode_one_def episode_two_def
  empty_store_def store_with_show_def store_with_movie_def store_shared_id_def

section \<open>Properties of the favorites functions\<close>

text \<open>
  What a failed insert leaves behind, for a show that was not a favorite and with nothing
  else running: the key is out of the index, no entry with the id of the show is in the
  list, the failure is on the console, and the only toast of the call is the success
  toast of the optimistic step.
\<close>

lemma addFavoriteShow_failure_general:
  assumes "favoriteKey (get show ''id'') \<notin> favoritedMedia s"
  shows "\<not> isShowFavorited (get show ''id'') (addFavoriteShow (Some u) (Some e) id show s)"
    and "\<forall>f \<in> set (favorites (addFavoriteShow (Some u) (Some e) id show s)).
           get f ''id'' \<noteq> get show ''id''"
    and "favoritedMedia (addFavoriteShow (Some u) (Some e) id show s) = favoritedMedia s"
    and "favorites (addFavoriteShow (Some u) (Some e) id show s)
           = filter (\<lambda>f. get f ''id'' \<noteq> get show ''id'') (favorites s)"
    and "toasts (addFavoriteShow (Some u) (Some e) id show s)
           = toasts s
               @ [ToastSuccess (quoted_name show @ '' has been added to your Favorites.'')]"
    and "trace (addFavoriteShow (Some u) (Some e) id show s)
           = trace s @ [LogError ''Error adding favorite show:'' e]"
  using assms
  by (auto simp: addFavoriteShow_def addFavoriteShow_begin_def addFavoriteShow_settle_def
      isShowFavorited_def strict_neq_def get_put Let_def)

text \<open>
  C1. An authenticated add of \<open>sample_show\<close> (id 42, not a favorite) to an empty store,
  whose insert fails. The state is rolled back and the error goes to the console, but
  the toasts of the call are the success toast alone: no error notification reaches
  the user, where \<open>removeFavoriteShow\<close> shows one when its delete fails.
\<close>

theorem addFavoriteShow_insert_failure_toasts:
  "addFavoriteShow (Some sample_user) (Some (Error ''insert failed'')) id sample_show
     empty_store
   = \<lparr>trace = [LogError ''Error adding favorite show:'' (Error ''insert failed'')],
      calls = [Insert ''favorites''
                 [(''user_id'', JStr ''user-1''), (''media_id'', JNum 42),
                  (''media_type'', JStr ''tv'')]],
      toasts = [ToastSuccess (CHR 0x27 # ''Dark'' @ [CHR 0x27]
                                @ '' has been added to your Favorites.'')],
      favorites = [],
      favoritedMedia = {}\<rparr>"
  by (simp add: favorites_eval samples)

text \<open>
  The rollback of the same failed add on a store that held a movie with id 42: the
  movie is gone from the list, so the list is not the one before the call.
\<close>

lemma addFavoriteShow_rollback_takes_same_id:
  "favorites (addFavoriteShow (Some sample_user) (Some (Error ''insert failed'')) id sample_show
                store_with_movie) = []
   \<and> favorites store_with_movie = [sample_movie]"
  by (simp add: favorites_eval samples decimal_eval)

text \<open>
  C2. When the delete of an authenticated remove fails, the list and the index are set
  back to the values they had when the remove began, whatever happened to the store
  while the delete was in flight (\<open>others\<close>).
\<close>

theorem removeFavoriteShow_restores_snapshot:
  "favorites (removeFavoriteShow (Some u) (Some e) others show s) = favorites s
   \<and> favoritedMedia (removeFavoriteShow (Some u) (Some e) others show s) = favoritedMedia s"
  by (simp add: removeFavoriteShow_def removeFavoriteShow_begin_def
      removeFavoriteShow_settle_def Let_def)

text \<open>
  C6. An add without an identity shows the login notice and does nothing else: the
  list, the index and the calls issued are unchanged, so no insert is issued.
\<close>

theorem addFavoriteShow_unauthenticated:
  "addFavoriteShow None err others show s
     = s\<lparr>toasts := toasts s @ [ToastError ''You need to be logged in to save favorites.'']\<rparr>
   \<and> favorites (addFavoriteShow None err others show s) = favorites s
   \<and> favoritedMedia (addFavoriteShow None err others show s) = favoritedMedia s
   \<and> calls (addFavoriteShow None err others show s) = calls s"
  by (simp add: addFavoriteShow_def addFavoriteShow_begin_def)

text \<open>
  C7. Under an identity, when the key of the show is already in the index, add is a
  no-op: the store after the call is the store before it, whatever the insert would
  have answered and whatever else runs. So the list, the index and the calls issued
  are unchanged, no toast is shown and nothing is logged.
\<close>

theorem addFavoriteShow_present:
  "favoriteKey (get show ''id'') \<in> favoritedMedia s \<Longrightarrow>
     addFavoriteShow (Some u) err others show s = s
     \<and> favorites (addFavoriteShow (Some u) err others show s) = favorites s
     \<and> favoritedMedia (addFavoriteShow (Some u) err others show s) = favoritedMedia s
     \<and> calls (addFavoriteShow (Some u) err others show s) = calls s
     \<and> toasts (addFavoriteShow (Some u) err others show s) = toasts s
     \<and> trace (addFavoriteShow (Some u) err others show s) = trace s"
  by (simp add: addFavoriteShow_def addFavoriteShow_begin_def Let_def)

text \<open>Adding \<open>sample_show\<close> again to a store that already holds it.\<close>

theorem addFavoriteShow_present_witness:
  "favoriteKey (get sample_show ''id'') \<in> favoritedMedia store_with_show
   \<and> addFavoriteShow (Some sample_user) (Some (Error ''insert failed'')) id sample_show
       store_with_show = store_with_show
   \<and> toasts (addFavoriteShow (Some sample_user) None id sample_show store_with_show) = []
   \<and> calls (addFavoriteShow (Some sample_user) None id sample_show store_with_show) = []"
proof -
  have h: "favoriteKey (get sample_show ''id'') \<in> favoritedMedia store_with_show"
    by (simp add: favoriteKey_def get_def samples decimal_eval)
  from addFavoriteShow_present [OF h] h show ?thesis
    by (simp add: store_with_show_def)
qed

text \<open>
  C9. The rollback of a failed add and the optimistic step of a remove keep exactly the
  entries whose \<open>id\<close> differs from the id of the show: every entry with that id goes,
  whatever its type, season or episode.
\<close>

theorem rollback_filters_by_id:
  "favorites (addFavoriteShow_settle show (Some e) s)
     = filter (\<lambda>f. get f ''id'' \<noteq> get show ''id'') (favorites s)
   \<and> favorites (snd (removeFavoriteShow_begin (Some u) show s))
     = filter (\<lambda>f. get f ''id'' \<noteq> get show ''id'') (favorites s)"
  by (simp add: addFavoriteShow_settle_def removeFavoriteShow_begin_def Let_def strict_neq_def)

text \<open>
  On a list holding the show 42, the movie 42 and the show 7, both steps leave the
  show 7 alone.
\<close>

theorem rollback_filters_by_id_witness:
  "favorites (addFavoriteShow_settle sample_show (Some (Error ''insert failed''))
                store_shared_id)
     = [[(''id'', JNum 7), (''name'', JStr ''Lost''), (''type'', JStr ''tv'')]]
   \<and> favorites (snd (removeFavoriteShow_begin (Some sample_user) sample_show store_shared_id))
     = [[(''id'', JNum 7), (''name'', JStr ''Lost''), (''type'', JStr ''tv'')]]
   \<and> sample_movie \<in> set (favorites store_shared_id)"
  using rollback_filters_by_id [of sample_show "Error ''insert failed''" store_shared_id
      sample_user]
  by (simp add: get_def samples)

text \<open>
  C5, as the code has it. The key is \<open>`${show.id}-tv`\<close>: it is computed from the id
  alone, with the media type fixed to \<open>tv\<close>. Two entries with numeric ids have the same
  key exactly when the ids are equal; type, season and episode do not enter it, so
  entries that share an id share one key.
\<close>

theorem favoriteKey_by_id:
  "get a ''id'' = JNum m \<Longrightarrow> get b ''id'' = JNum n \<Longrightarrow>
     (favoriteKey (get a ''id'') = favoriteKey (get b ''id'')) = (m = n)"
  by (auto simp: favoriteKey_def dest: string_of_int_inj)

theorem favoriteKey_by_id_witness:
  "get episode_one ''id'' = JNum 42 \<and> get sample_movie ''id'' = JNum 42
   \<and> get [(''id'', JNum 7), (''name'', JStr ''Lost'')] ''id'' = JNum 7
   \<and> favoriteKey (get episode_one ''id'') = favoriteKey (get sample_movie ''id'')
   \<and> favoriteKey (get episode_one ''id'')
       \<noteq> favoriteKey (get [(''id'', JNum 7), (''name'', JStr ''Lost'')] ''id'')"
proof -
  have a: "get episode_one ''id'' = JNum 42" by (simp add: get_def samples)
  have b: "get sample_movie ''id'' = JNum 42" by (simp add: get_def samples)
  have c: "get [(''id'', JNum 7), (''name'', JStr ''Lost'')] ''id'' = JNum 7"
    by (simp add: get_def)
  from favoriteKey_by_id [OF a b] favoriteKey_by_id [OF a c] a b c show ?thesis by simp
qed

text \<open>
  C5 as stated fails: \<open>episode_one\<close> and \<open>episode_two\<close> have the same id and differ in
  type, season and episode, and their keys are equal; after adding the first, the
  second tests as a favorite.
\<close>

theorem favoriteKey_same_id_counterexample:
  "get episode_one ''id'' = get episode_two ''id''
   \<and> get episode_one ''type'' \<noteq> get episode_two ''type''
   \<and> get episode_one ''season_number'' \<noteq> get episode_two ''season_number''
   \<and> get episode_one ''episode_number'' \<noteq> get episode_two ''episode_number''
   \<and> favoriteKey (get episode_one ''id'') = favoriteKey (get episode_two ''id'')
   \<and> isShowFavorited (get episode_two ''id'')
       (addFavoriteShow (Some sample_user) None id episode_one empty_store)"
  by (simp add: favorites_eval samples)

section \<open>Properties of the History page\<close>












text \<open>
  C8. When \<open>deleteWatchItem\<close> rejects, the only thing \<open>handleDelete\<close> does after it is
  to log the error: the page is the one the optimistic removal (and whatever ran
  meanwhile) left, with one more console entry. With nothing else running, the whole
  page after the call is the page before it with \<open>history\<close> filtered by \<open>watch_id\<close>,
  the two calls issued (removal from Continue Watching, the delete) and the console
  entry. So the deleted item is absent from \<open>history\<close> and is not put back, the
  \<open>error\<close> and \<open>loading\<close> fields of the page are untouched, and no toast is shown.
\<close>

theorem handleDelete_failure_not_restored:
  "handleDelete_settle (Rejected e) refetched q
     = q\<lparr>trace := trace q
              @ [LogError ''Failed to delete item or refetch continue watching:'' e]\<rparr>
   \<and> handleDelete (Rejected e) refetched others itemToDelete p
     = (others (handleDelete_begin itemToDelete p))
         \<lparr>trace := trace (others (handleDelete_begin itemToDelete p))
              @ [LogError ''Failed to delete item or refetch continue watching:'' e]\<rparr>
   \<and> handleDelete (Rejected e) refetched id itemToDelete p
     = p\<lparr>history := filter (\<lambda>item. get item ''watch_id'' \<noteq> get itemToDelete ''watch_id'')
                         (history p),
          calls := calls p @ [RemoveContinueWatchingItem (get itemToDelete ''media_id''),
                              DeleteWatchItem itemToDelete],
          trace := trace p
              @ [LogError ''Failed to delete item or refetch continue watching:'' e]\<rparr>
   \<and> history (handleDelete (Rejected e) refetched others itemToDelete p)
     = history (others (handleDelete_begin itemToDelete p))
   \<and> history (handleDelete (Rejected e) refetched id itemToDelete p)
     = filter (\<lambda>item. get item ''watch_id'' \<noteq> get itemToDelete ''watch_id'') (history p)
   \<and> itemToDelete \<notin> set (history (handleDelete (Rejected e) refetched id itemToDelete p))
   \<and> error (handleDelete (Rejected e) refetched id itemToDelete p) = error p
   \<and> loading (handleDelete (Rejected e) refetched id itemToDelete p) = loading p
   \<and> toasts (handleDelete (Rejected e) refetched id itemToDelete p) = toasts p
   \<and> trace (handleDelete (Rejected e) refetched id itemToDelete p)
     = trace p @ [LogError ''Failed to delete item or refetch continue watching:'' e]
   \<and> calls (handleDelete (Rejected e) refetched id itemToDelete p)
     = calls p @ [RemoveContinueWatchingItem (get itemToDelete ''media_id''),
                  DeleteWatchItem itemToDelete]"
  by (simp add: handleDelete_def handleDelete_settle_def handleDelete_begin_def strict_neq_def)

text \<open>
  Deleting the first of the two items of \<open>sample_page\<close> with a failing remote delete
  leaves the second item alone on the page.
\<close>

theorem handleDelete_failure_not_restored_witness:
  "history sample_page ! 0 \<in> set (history sample_page)
   \<and> history (handleDelete (Rejected (Error ''delete failed'')) (Resolved ()) id
                (history sample_page ! 0) sample_page)
       = [[(''id'', JNum 550), (''watch_id'', JStr ''user-1-550-movie-0-0''),
           (''media_id'', JNum 550)]]
   \<and> toasts (handleDelete (Rejected (Error ''delete failed'')) (Resolved ()) id
                (history sample_page ! 0) sample_page) = []
   \<and> error (handleDelete (Rejected (Error ''delete failed'')) (Resolved ()) id
                (history sample_page ! 0) sample_page) = None
   \<and> loading (handleDelete (Rejected (Error ''delete failed'')) (Resolved ()) id
                (history sample_page ! 0) sample_page) = False"
proof -
  note t = handleDelete_failure_not_restored [where e = "Error ''delete failed''"
      and refetched = "Resolved ()" and others = id
      and itemToDelete = "history sample_page ! 0" and p = sample_page]
  from t have h: "history (handleDelete (Rejected (Error ''delete failed'')) (Resolved ()) id
                (history sample_page ! 0) sample_page)
       = filter (\<lambda>item. get item ''watch_id'' \<noteq> get (history sample_page ! 0) ''watch_id'')
           (history sample_page)"
    by blast
  from t have n: "toasts (handleDelete (Rejected (Error ''delete failed'')) (Resolved ()) id
                (history sample_page ! 0) sample_page) = toasts sample_page"
    by blast
  have "filter (\<lambda>item. get item ''watch_id'' \<noteq> get (history sample_page ! 0) ''watch_id'')
           (history sample_page)
       = [[(''id'', JNum 550), (''watch_id'', JStr ''user-1-550-movie-0-0''),
           (''media_id'', JNum 550)]]"
    by (simp add: sample_page_def get_def)
  moreover from t
  have "error (handleDelete (Rejected (Error ''delete failed'')) (Resolved ()) id
                (history sample_page ! 0) sample_page) = error sample_page
      \<and> loading (handleDelete (Rejected (Error ''delete failed'')) (Resolved ()) id
                (history sample_page ! 0) sample_page) = loading sample_page"
    by blast
  ultimately show ?thesis using h n by (simp add: sample_page_def)
qed

end
